theory Spec2Isabelle
  imports Main
begin

unbundle bit_operations_syntax

section \<open>Python values used by the distributed bootstrap\<close>

text \<open>
  The exceptions that the modelled code raises or lets through. All of them are
  subclasses of Python's \<open>Exception\<close>, so an \<open>except Exception\<close> clause catches
  each of them.
\<close>

datatype py_error =
    ValueError
  | TypeError
  | RuntimeError
  | ZeroDivisionError
  | OSError
  | AssertionError
  | JSONDecodeError

subsection \<open>\<open>str(n)\<close> for an integer\<close>

definition digit_char :: "nat \<Rightarrow> char" where
  "digit_char d = char_of (48 + d)"

fun dec_digits :: "nat \<Rightarrow> string" where
  "dec_digits n =
     (if n < 10 then [digit_char n] else dec_digits (n div 10) @ [digit_char (n mod 10)])"

declare dec_digits.simps [simp del]

definition py_str :: "int \<Rightarrow> string" where
  "py_str i = (if i < 0 then CHR ''-'' # dec_digits (nat (- i)) else dec_digits (nat i))"

subsection \<open>\<open>int(s)\<close> for a string\<close>

text \<open>
  Python's \<open>int\<close> on a string strips surrounding whitespace, reads one optional sign
  and then decimal digits, where single underscores may separate digits. Anything else
  raises \<open>ValueError\<close>. Strings are ASCII strings here; on these the whitespace that
  \<open>int\<close> skips is the space and the five control characters tab, line feed,
  vertical tab, form feed and carriage return (bytes 9 to 13). The separators
  \<open>0x1C\<close> to \<open>0x1F\<close> are not skipped: \<open>int\<close> raises on them.
\<close>

definition is_space :: "char \<Rightarrow> bool" where
  "is_space c = (let n = (of_char c :: nat) in (9 \<le> n \<and> n \<le> 13) \<or> n = 32)"

definition is_digit :: "char \<Rightarrow> bool" where
  "is_digit c = (let n = (of_char c :: nat) in 48 \<le> n \<and> n \<le> 57)"

definition digit_val :: "char \<Rightarrow> nat" where
  "digit_val c = of_char c - 48"

definition py_strip :: "string \<Rightarrow> string" where
  "py_strip s = rev (dropWhile is_space (rev (dropWhile is_space s)))"

fun read_digits :: "nat \<Rightarrow> string \<Rightarrow> nat option" where
  "read_digits acc [] = Some acc"
| "read_digits acc (c # cs) =
     (if is_digit c then read_digits (acc * 10 + digit_val c) cs
      else if c = CHR ''_'' then
        (case cs of
           [] \<Rightarrow> None
         | d # ds \<Rightarrow> if is_digit d then read_digits (acc * 10 + digit_val d) ds else None)
      else None)"

definition read_nat :: "string \<Rightarrow> nat option" where
  "read_nat s =
     (case s of
        [] \<Rightarrow> None
      | c # cs \<Rightarrow> if is_digit c then read_digits (digit_val c) cs else None)"

definition py_int :: "string \<Rightarrow> py_error + int" where
  "py_int s =
     (let t = py_strip s;
          r = (case t of
                 [] \<Rightarrow> None
               | c # cs \<Rightarrow>
                   if c = CHR ''-'' then map_option (\<lambda>n. - int n) (read_nat cs)
                   else if c = CHR ''+'' then map_option int (read_nat cs)
                   else map_option int (read_nat t))
      in case r of None \<Rightarrow> Inl ValueError | Some v \<Rightarrow> Inr v)"

section \<open>The distributed bootstrap (\<open>ab/gpt/dist/DistEnv.py\<close>)\<close>

subsection \<open>Process environment\<close>

type_synonym environ = "string \<rightharpoonup> string"

definition env_get :: "environ \<Rightarrow> string \<Rightarrow> string \<Rightarrow> string" where
  "env_get env k d = (case env k of None \<Rightarrow> d | Some v \<Rightarrow> v)"

definition setdefault :: "('k \<rightharpoonup> 'v) \<Rightarrow> 'k \<Rightarrow> 'v \<Rightarrow> ('k \<rightharpoonup> 'v)" where
  "setdefault m k v = (case m k of None \<Rightarrow> m(k \<mapsto> v) | Some _ \<Rightarrow> m)"

subsection \<open>State and external libraries\<close>

text \<open>
  The class attributes of \<open>DistEnv\<close> together with the process-wide state that its
  methods write: \<open>os.environ\<close>, whether the default process group exists
  (\<open>dist.is_initialized()\<close>), the bound accelerator device, and the seeds last
  handed to \<open>torch.manual_seed\<close> and \<open>torch.cuda.manual_seed_all\<close>.
\<close>

record dist_env =
  environ :: environ
  d_inited :: bool
  d_rank :: int
  d_local_rank :: int
  d_world_size :: int
  pg_initialized :: bool
  cuda_device :: "int option"
  torch_seed :: "int option"
  cuda_seed :: "int option"

text \<open>
  What the process observes of \<open>torch\<close>, \<open>torch.distributed\<close> and the clock. The
  calls into the communication backend that can fail (group formation, broadcast,
  barrier) report their outcome here. \<open>init_pg_outcome k d\<close> is the outcome of the
  \<open>k\<close>-th call of \<open>dist.init_process_group\<close>, with \<open>d\<close> telling whether
  \<open>device_id\<close> was passed; \<open>broadcast_outcome v\<close> is the content of the length-1
  tensor after \<open>dist.broadcast(t, src=0)\<close> when it held \<open>v\<close> before.
\<close>

record torch_ext =
  cuda_is_available :: bool
  cuda_device_count :: nat
  time_now :: int
  init_pg_accepts_device_id :: bool
  init_pg_outcome :: "nat \<Rightarrow> bool \<Rightarrow> py_error option"
  broadcast_outcome :: "int \<Rightarrow> py_error + int"
  barrier_accepts_device_ids :: bool
  barrier_outcome :: "int list option \<Rightarrow> py_error option"

subsection \<open>Local fallback spawn\<close>

text \<open>An invocation of the entry point: the environment it runs in and its first argument.\<close>

record invocation =
  inv_environ :: environ
  inv_local_rank :: int

datatype launch = InProcess invocation | Spawned "invocation list"

definition spawn_entry :: "environ \<Rightarrow> int \<Rightarrow> int \<Rightarrow> invocation" where
  "spawn_entry env local_rank nprocs =
     (let e1 = setdefault env ''MASTER_ADDR'' ''127.0.0.1'';
          e2 = setdefault e1 ''MASTER_PORT'' ''29500'';
          e3 = e2(''LOCAL_RANK'' \<mapsto> py_str local_rank);
          e4 = e3(''RANK'' \<mapsto> py_str local_rank);
          e5 = e4(''WORLD_SIZE'' \<mapsto> py_str nprocs)
      in \<lparr>inv_environ = e5, inv_local_rank = local_rank\<rparr>)"

text \<open>
  Modelled from the spec: \<open>torch.multiprocessing.spawn(fn, nprocs=n, args=a)\<close> is a
  library call; it starts \<open>n\<close> worker processes, the \<open>i\<close>-th of which runs
  \<open>fn(i, *a)\<close> on its own copy of the parent's environment.
\<close>

definition mp_spawn :: "(int \<Rightarrow> 'a) \<Rightarrow> int \<Rightarrow> 'a list" where
  "mp_spawn fn nprocs = map (\<lambda>i. fn (int i)) [0..<nat nprocs]"

definition spawn_if_needed :: "torch_ext \<Rightarrow> environ \<Rightarrow> int option \<Rightarrow> py_error + launch" where
  "spawn_if_needed X env nprocs =
     (if list_ex (\<lambda>k. env k \<noteq> None) [''RANK'', ''WORLD_SIZE'', ''LOCAL_RANK''] then
        (case (case env ''LOCAL_RANK'' of None \<Rightarrow> Inr 0 | Some v \<Rightarrow> py_int v) of
           Inl e \<Rightarrow> Inl e
         | Inr l \<Rightarrow> Inr (InProcess \<lparr>inv_environ = env, inv_local_rank = l\<rparr>))
      else
        (let n = (case nprocs of
                    None \<Rightarrow> if cuda_device_count X = 0 then 1 else int (cuda_device_count X)
                  | Some n \<Rightarrow> n)
         in Inr (Spawned (mp_spawn (\<lambda>i. spawn_entry env i n) n))))"

subsection \<open>\<open>DistEnv.init\<close>\<close>

text \<open>
  Every operation returns the state it leaves behind together with the exception that
  escaped, if any: an exception keeps the assignments made before it.
\<close>

definition read_identity :: "dist_env \<Rightarrow> dist_env \<times> py_error option" where
  "read_identity s =
     (case py_int (env_get (environ s) ''RANK'' ''0'') of
        Inl e \<Rightarrow> (s, Some e)
      | Inr r \<Rightarrow>
          (let s1 = s\<lparr>d_rank := r\<rparr> in
           case py_int (env_get (environ s1) ''LOCAL_RANK'' ''0'') of
             Inl e \<Rightarrow> (s1, Some e)
           | Inr l \<Rightarrow>
               (let s2 = s1\<lparr>d_local_rank := l\<rparr> in
                case py_int (env_get (environ s2) ''WORLD_SIZE'' ''1'') of
                  Inl e \<Rightarrow> (s2, Some e)
                | Inr w \<Rightarrow> (s2\<lparr>d_world_size := w\<rparr>, None))))"

definition form_group :: "torch_ext \<Rightarrow> dist_env \<Rightarrow> dist_env \<times> py_error option" where
  "form_group X s =
     (if d_world_size s > 1 \<and> \<not> pg_initialized s then
        (case init_pg_outcome X 0 (init_pg_accepts_device_id X) of
           None \<Rightarrow> (s\<lparr>pg_initialized := True\<rparr>, None)
         | Some e \<Rightarrow>
             if e = TypeError then
               (case init_pg_outcome X 1 False of
                  None \<Rightarrow> (s\<lparr>pg_initialized := True\<rparr>, None)
                | Some e' \<Rightarrow> (s, Some e'))
             else (s, Some e))
      else (s, None))"

definition seed_base :: "torch_ext \<Rightarrow> int" where
  "seed_base X = time_now X AND 0x7FFFFFFF"

definition resolve_seed :: "torch_ext \<Rightarrow> int option \<Rightarrow> dist_env \<Rightarrow> py_error + int" where
  "resolve_seed X seed s =
     (case seed of
        Some v \<Rightarrow> Inr v
      | None \<Rightarrow> if pg_initialized s then broadcast_outcome X (seed_base X) else Inr (seed_base X))"

definition rank :: "dist_env \<Rightarrow> int" where
  "rank s = d_rank s"

definition local_rank :: "dist_env \<Rightarrow> int" where
  "local_rank s = d_local_rank s"

definition world_size :: "dist_env \<Rightarrow> int" where
  "world_size s = d_world_size s"

definition is_main :: "dist_env \<Rightarrow> bool" where
  "is_main s = (rank s = 0)"

definition set_seed :: "torch_ext \<Rightarrow> int \<Rightarrow> dist_env \<Rightarrow> dist_env" where
  "set_seed X seed s =
     (let rs = seed + rank s;
          s1 = s\<lparr>torch_seed := Some rs\<rparr>
      in if cuda_is_available X then s1\<lparr>cuda_seed := Some rs\<rparr> else s1)"

definition init :: "torch_ext \<Rightarrow> int option \<Rightarrow> dist_env \<Rightarrow> dist_env \<times> py_error option" where
  "init X seed s =
     (if d_inited s then (s, None)
      else
        (case read_identity s of
           (s1, Some e) \<Rightarrow> (s1, Some e)
         | (s1, None) \<Rightarrow>
             (let s2 = s1\<lparr>environ := setdefault (setdefault (environ s1) ''MASTER_ADDR'' ''127.0.0.1'')
                                         ''MASTER_PORT'' ''29500''\<rparr>;
                  s3 = (if cuda_is_available X then s2\<lparr>cuda_device := Some (d_local_rank s2)\<rparr> else s2)
              in case form_group X s3 of
                   (s4, Some e) \<Rightarrow> (s4, Some e)
                 | (s4, None) \<Rightarrow>
                     (case resolve_seed X seed s4 of
                        Inl e \<Rightarrow> (s4, Some e)
                      | Inr sd \<Rightarrow> ((set_seed X sd s4)\<lparr>d_inited := True\<rparr>, None)))))"

subsection \<open>\<open>DistEnv.barrier\<close> and \<open>DistEnv.destroy\<close>\<close>

definition barrier :: "torch_ext \<Rightarrow> dist_env \<Rightarrow> py_error option" where
  "barrier X s =
     (if pg_initialized s then
        barrier_outcome X
          (if barrier_accepts_device_ids X \<and> cuda_is_available X then Some [d_local_rank s]
           else None)
      else None)"



subsection \<open>Several ranks\<close>

text \<open>
  Modelled from the spec: \<open>dist.broadcast(t, src=0)\<close> is a collective of the external
  communication backend; on return every rank's tensor holds what rank 0's held.
  \<open>collective_broadcast sent r\<close> is the content of rank \<open>r\<close>'s tensor after the call
  when rank \<open>k\<close> entered it with \<open>sent k\<close>.
\<close>

definition collective_broadcast :: "(nat \<Rightarrow> int) \<Rightarrow> nat \<Rightarrow> int" where
  "collective_broadcast sent r = sent 0"

text \<open>
  Rank \<open>r\<close> of a job: its own view \<open>X r\<close> of the libraries and the clock, with the
  broadcast wired to the collective over what every rank sends from its own clock.
\<close>

definition rank_ext :: "(nat \<Rightarrow> torch_ext) \<Rightarrow> nat \<Rightarrow> torch_ext" where
  "rank_ext X r =
     (X r)\<lparr>broadcast_outcome := (\<lambda>v. Inr (collective_broadcast ((\<lambda>k. seed_base (X k))(r := v)) r))\<rparr>"

text \<open>The class attributes as the class body sets them, in a process with environment \<open>env\<close>.\<close>

definition fresh :: "environ \<Rightarrow> dist_env" where
  "fresh env =
     \<lparr>environ = env, d_inited = False, d_rank = 0, d_local_rank = 0, d_world_size = 1,
      pg_initialized = False, cuda_device = None, torch_seed = None, cuda_seed = None\<rparr>"

definition launcher_env :: "environ \<Rightarrow> int \<Rightarrow> int \<Rightarrow> int \<Rightarrow> environ" where
  "launcher_env env r l n =
     env(''RANK'' \<mapsto> py_str r, ''LOCAL_RANK'' \<mapsto> py_str l, ''WORLD_SIZE'' \<mapsto> py_str n)"

subsection \<open>Consistent launch signals\<close>

text \<open>
  A launch signal carries the value \<open>v\<close> when it is set to the decimal rendering of \<open>v\<close>,
  or is absent while \<open>v\<close> is what absence stands for (single-process operation: rank 0,
  local rank 0, world size 1). The signals are consistent for a process of rank \<open>r\<close>,
  local rank \<open>l\<close> in a job of \<open>n\<close> processes when they carry these values and
  \<open>0 \<le> r < n\<close>, \<open>0 \<le> l\<close>.
\<close>

definition signal_carries :: "environ \<Rightarrow> string \<Rightarrow> int \<Rightarrow> int \<Rightarrow> bool" where
  "signal_carries env k dflt v = (case env k of None \<Rightarrow> v = dflt | Some s \<Rightarrow> s = py_str v)"

definition consistent_signals :: "environ \<Rightarrow> int \<Rightarrow> int \<Rightarrow> int \<Rightarrow> bool" where
  "consistent_signals env r l n =
     (signal_carries env ''RANK'' 0 r \<and> signal_carries env ''LOCAL_RANK'' 0 l \<and>
      signal_carries env ''WORLD_SIZE'' 1 n \<and> 0 \<le> r \<and> r < n \<and> 0 \<le> l)"

text \<open>
  Group formation does not fail: the first call of \<open>dist.init_process_group\<close> returns,
  or it raises \<open>TypeError\<close> and the retry without \<open>device_id\<close> returns.
\<close>

definition group_formation_ok :: "torch_ext \<Rightarrow> bool" where
  "group_formation_ok X =
     (case init_pg_outcome X 0 (init_pg_accepts_device_id X) of
        None \<Rightarrow> True
      | Some e \<Rightarrow> e = TypeError \<and> init_pg_outcome X 1 False = None)"

text \<open>A job of \<open>N\<close> ranks: rank \<open>r\<close> runs \<open>init\<close> with no seed from its state \<open>S r\<close>.\<close>

definition run_ranks ::
  "nat \<Rightarrow> (nat \<Rightarrow> torch_ext) \<Rightarrow> (nat \<Rightarrow> dist_env) \<Rightarrow> (dist_env \<times> py_error option) list" where
  "run_ranks N X S = map (\<lambda>r. init (rank_ext X r) None (S r)) [0..<N]"

section \<open>The training-engine adapter (\<open>ab/gpt/util/DeepSpeedManager.py\<close>)\<close>

text \<open>
  Values of a configuration mapping and of the attributes of a training-arguments
  object. An object is the mapping from its attribute names to their values:
  \<open>hasattr(o, a)\<close> is \<open>o a \<noteq> None\<close>.
\<close>

datatype pyval =
    VNone
  | VBool bool
  | VInt int
  | VStr string
  | VDict "(string \<times> pyval) list"














section \<open>The rank-coordinated generator (\<open>ab/gpt/infer/DPGenerator.py\<close>)\<close>

subsection \<open>Tensor-parallel compatibility check\<close>

text \<open>
  The two attributes of the model configuration as \<open>getattr(cfg, name, None)\<close> returns
  them: \<open>None\<close> when the attribute is absent.
\<close>

record model_config =
  num_attention_heads :: "int option"
  hidden_size :: "int option"

definition py_mod :: "int \<Rightarrow> int \<Rightarrow> py_error + int" where
  "py_mod a b = (if b = 0 then Inl ZeroDivisionError else Inr (a mod b))"

definition tp_check :: "int option \<Rightarrow> int \<Rightarrow> py_error option" where
  "tp_check v mp_size =
     (case v of
        None \<Rightarrow> None
      | Some n \<Rightarrow>
          if n = 0 then None
          else (case py_mod n mp_size of
                  Inl e \<Rightarrow> Some e
                | Inr m \<Rightarrow> if m \<noteq> 0 then Some RuntimeError else None))"

definition tp_compat_or_raise :: "model_config \<Rightarrow> int \<Rightarrow> py_error option" where
  "tp_compat_or_raise cfg mp_size =
     (case tp_check (num_attention_heads cfg) mp_size of
        Some e \<Rightarrow> Some e
      | None \<Rightarrow> tp_check (hidden_size cfg) mp_size)"

subsection \<open>Effects of the worker\<close>

type_synonym tokens = "nat list"
type_synonym path = "string list"
type_synonym prompts = "(string \<times> (string \<rightharpoonup> string)) list"

datatype fs_op =
    CreateFile path string string
  | Mkdir path
  | DumpJson path pyval
  | ToPickle path

text \<open>
  What a rank does, in order. \<open>EvFs idx op ok\<close> is a file-system operation of task
  \<open>idx\<close> and whether it succeeded; a failed one raised \<open>OSError\<close>.
\<close>

datatype event =
    EvInitInference int
  | EvBuildPrompts
  | EvBroadcastPrompts
  | EvMkdirModels bool
  | EvGenerate nat tokens
  | EvDecode nat
  | EvPrint nat string
  | EvWarnSkip nat
  | EvWarnSave nat
  | EvFs nat fs_op bool
  | EvBarrier

text \<open>
  The collaborators of the worker: the tokenizer and model library, the sharded
  execution engine, the prompt builder with its data source, the parsers
  \<open>extract_code\<close> and \<open>extract_hyperparam\<close>, \<open>json.loads\<close>, the file system, and the
  constants of \<open>ab.gpt.util.Const\<close>. \<open>generate idx enc\<close> is the outcome of the
  \<open>idx\<close>-th call of \<open>model.generate\<close>; \<open>fs_fails op\<close> tells whether the operation
  raises.
\<close>

record gen_ext =
  load_tokenizer :: "py_error option"
  load_model :: "py_error + model_config"
  init_inference :: "int \<Rightarrow> py_error option"
  build_prompts :: "py_error + prompts"
  broadcast_prompts :: "prompts option \<Rightarrow> py_error + prompts option"
  tokenize :: "string \<Rightarrow> py_error + tokens"
  generate :: "nat \<Rightarrow> tokens \<Rightarrow> py_error + tokens"
  decode :: "tokens \<Rightarrow> string"
  extract_code :: "string \<Rightarrow> string option"
  extract_hyperparam :: "string \<Rightarrow> string option"
  json_loads :: "string \<Rightarrow> py_error + pyval"
  fs_fails :: "fs_op \<Rightarrow> bool"
  models_dir :: path
  new_out_file :: string
  new_nn_file :: string
  hp_file :: string

text \<open>The task index of a compute step, and the compute steps of a trace in order.\<close>

fun compute_idx :: "event \<Rightarrow> nat option" where
  "compute_idx (EvGenerate idx enc) = Some idx"
| "compute_idx _ = None"

definition generated :: "event list \<Rightarrow> nat list" where
  "generated evs = List.map_filter compute_idx evs"

definition extra_instructions :: string where
  "extra_instructions =
     '' Use PyTorch for the implementation. Keep the code short. Name the main class of the model \"Net\".'' @
     '' The model code must include default parameters for initialization in the constructor. '' @
     ''Provide only the code. Don't provide any explanation. Remove any text from this reply. '' @
     ''Don't include comments in the code.''"

subsection \<open>Persisting one task\<close>

text \<open>Operations run in order until one raises; the result tells whether all succeeded.\<close>

fun run_ops :: "(fs_op \<Rightarrow> bool) \<Rightarrow> fs_op list \<Rightarrow> (fs_op \<times> bool) list \<times> bool" where
  "run_ops fails [] = ([], True)"
| "run_ops fails (op # ops) =
     (if fails op then ([(op, False)], False)
      else (case run_ops fails ops of (performed, ok) \<Rightarrow> ((op, True) # performed, ok)))"

definition falsy :: "string option \<Rightarrow> bool" where
  "falsy v = (case v of None \<Rightarrow> True | Some s \<Rightarrow> s = [])"

definition replace_quotes :: "string \<Rightarrow> string" where
  "replace_quotes s = map (\<lambda>c. if c = CHR 0x27 then CHR 0x22 else c) s"

definition model_dir_of :: "gen_ext \<Rightarrow> nat \<Rightarrow> path" where
  "model_dir_of G idx = models_dir G @ [''B'' @ py_str (int idx)]"

text \<open>The body of the \<open>try\<close> block after \<open>json.loads\<close> returned \<open>hp_json\<close>.\<close>

definition save_ops :: "gen_ext \<Rightarrow> nat \<Rightarrow> string \<Rightarrow> pyval \<Rightarrow> (string \<rightharpoonup> string) \<Rightarrow> fs_op list" where
  "save_ops G idx code hp_json origdf =
     (let model_dir = model_dir_of G idx in
      [Mkdir model_dir, DumpJson (model_dir @ [hp_file G]) hp_json,
       CreateFile model_dir (new_nn_file G) code] @
      (case (origdf ''nn'', origdf ''nn_code'') of
         (Some nn, Some nn_code) \<Rightarrow>
           [CreateFile model_dir (''original_'' @ nn @ ''.py'') nn_code,
            ToPickle (model_dir @ [''dataframe.df''])]
       | _ \<Rightarrow> []))"

text \<open>
  The part of an iteration after the parse succeeded, on the designated rank: the raw
  output is written first, outside the \<open>try\<close>; what the \<open>try\<close> block raises is caught
  and logged.
\<close>

definition persist ::
  "gen_ext \<Rightarrow> bool \<Rightarrow> nat \<Rightarrow> string \<Rightarrow> string \<Rightarrow> string \<Rightarrow> (string \<rightharpoonup> string)
     \<Rightarrow> event list \<times> py_error option" where
  "persist G save_llm_output idx full_out code hp origdf =
     (let raw = CreateFile (model_dir_of G idx) (new_out_file G) full_out in
      if save_llm_output \<and> fs_fails G raw then ([EvFs idx raw False], Some OSError)
      else
        (let pre = (if save_llm_output then [EvFs idx raw True] else []) in
         case json_loads G (replace_quotes hp) of
           Inl e \<Rightarrow> (pre @ [EvWarnSave idx], None)
         | Inr hp_json \<Rightarrow>
             (case run_ops (fs_fails G) (save_ops G idx code hp_json origdf) of
                (performed, ok) \<Rightarrow>
                  (pre @ map (\<lambda>(op, b). EvFs idx op b) performed @ (if ok then [] else [EvWarnSave idx]),
                   None))))"

subsection \<open>The per-task loop\<close>

definition gen_task ::
  "gen_ext \<Rightarrow> bool \<Rightarrow> bool \<Rightarrow> nat \<Rightarrow> string \<times> (string \<rightharpoonup> string) \<Rightarrow> event list \<times> py_error option" where
  "gen_task G main save_llm_output idx item =
     (case item of
        (prompt_text, origdf_dict) \<Rightarrow>
          (case tokenize G (prompt_text @ extra_instructions) of
             Inl e \<Rightarrow> ([], Some e)
           | Inr enc \<Rightarrow>
               (case generate G idx enc of
                  Inl e \<Rightarrow> ([EvGenerate idx enc], Some e)
                | Inr out \<Rightarrow>
                    if main then
                      (let full_out = decode G (drop (length enc) out);
                           code = extract_code G full_out;
                           hp = extract_hyperparam G full_out;
                           seen = [EvGenerate idx enc, EvDecode idx, EvPrint idx full_out]
                       in if falsy code \<or> falsy hp then (seen @ [EvWarnSkip idx], None)
                          else (case persist G save_llm_output idx full_out (the code) (the hp)
                                       origdf_dict of
                                  (evs, r) \<Rightarrow> (seen @ evs, r)))
                    else ([EvGenerate idx enc], None))))"

fun gen_loop ::
  "gen_ext \<Rightarrow> bool \<Rightarrow> bool \<Rightarrow> nat \<Rightarrow> prompts \<Rightarrow> event list \<times> py_error option" where
  "gen_loop G main save_llm_output idx [] = ([], None)"
| "gen_loop G main save_llm_output idx (item # items) =
     (case gen_task G main save_llm_output idx item of
        (evs, Some e) \<Rightarrow> (evs, Some e)
      | (evs, None) \<Rightarrow>
          (case gen_loop G main save_llm_output (Suc idx) items of
             (evs', r) \<Rightarrow> (evs @ evs', r)))"

subsection \<open>\<open>DPGenerator._worker\<close>\<close>

text \<open>The prompts every rank iterates: built on the designated rank, broadcast if there are several.\<close>

definition obtain_prompts :: "gen_ext \<Rightarrow> dist_env \<Rightarrow> event list \<times> (py_error + prompts)" where
  "obtain_prompts G s =
     (case (if is_main s then
              (case build_prompts G of Inl e \<Rightarrow> Inl e | Inr ps \<Rightarrow> Inr (Some ps))
            else Inr None) of
        Inl e \<Rightarrow> ([EvBuildPrompts], Inl e)
      | Inr local \<Rightarrow>
          (let built = (if is_main s then [EvBuildPrompts] else []) in
           if world_size s > 1 then
             (case broadcast_prompts G local of
                Inl e \<Rightarrow> (built @ [EvBroadcastPrompts], Inl e)
              | Inr None \<Rightarrow> (built @ [EvBroadcastPrompts], Inl TypeError)
              | Inr (Some ps) \<Rightarrow> (built @ [EvBroadcastPrompts], Inr ps))
           else
             (case local of
                None \<Rightarrow> (built, Inl AssertionError)
              | Some ps \<Rightarrow> (built, Inr ps))))"

definition worker ::
  "torch_ext \<Rightarrow> gen_ext \<Rightarrow> int option \<Rightarrow> bool \<Rightarrow> dist_env \<Rightarrow> dist_env \<times> event list \<times> py_error option" where
  "worker X G seed save_llm_output s0 =
     (case init X seed s0 of
        (s, Some e) \<Rightarrow> (s, [], Some e)
      | (s, None) \<Rightarrow>
          (case load_tokenizer G of
             Some e \<Rightarrow> (s, [], Some e)
           | None \<Rightarrow>
               (case load_model G of
                  Inl e \<Rightarrow> (s, [], Some e)
                | Inr cfg \<Rightarrow>
                    (case tp_compat_or_raise cfg (world_size s) of
                       Some e \<Rightarrow> (s, [], Some e)
                     | None \<Rightarrow>
                         (case init_inference G (world_size s) of
                            Some e \<Rightarrow> (s, [EvInitInference (world_size s)], Some e)
                          | None \<Rightarrow>
                              (case obtain_prompts G s of
                                 (evs1, Inl e) \<Rightarrow> (s, EvInitInference (world_size s) # evs1, Some e)
                               | (evs1, Inr ps) \<Rightarrow>
                                   (let evs2 = EvInitInference (world_size s) # evs1 in
                                    if is_main s \<and> fs_fails G (Mkdir (models_dir G)) then
                                      (s, evs2 @ [EvMkdirModels False], Some OSError)
                                    else
                                      (let evs3 = evs2 @ (if is_main s then [EvMkdirModels True] else []) in
                                       case gen_loop G (is_main s) save_llm_output 0 ps of
                                         (evs4, Some e) \<Rightarrow> (s, evs3 @ evs4, Some e)
                                       | (evs4, None) \<Rightarrow>
                                           (s, evs3 @ evs4 @ [EvBarrier], barrier X s)))))))))"

section \<open>Concrete inputs\<close>

text \<open>Inputs at which the theorems below are instantiated.\<close>

definition quiet_ext :: torch_ext where
  "quiet_ext =
     \<lparr>cuda_is_available = False, cuda_device_count = 0, time_now = 1700000000,
      init_pg_accepts_device_id = True,
      init_pg_outcome = (\<lambda>k d. None),
      broadcast_outcome = (\<lambda>v. Inr v),
      barrier_accepts_device_ids = True,
      barrier_outcome = (\<lambda>ids. None)\<rparr>"

definition failing_barrier_ext :: torch_ext where
  "failing_barrier_ext = quiet_ext\<lparr>barrier_outcome := (\<lambda>ids. Some RuntimeError)\<rparr>"


definition two_clocks :: "nat \<Rightarrow> torch_ext" where
  "two_clocks r = quiet_ext\<lparr>time_now := 1700000000 + 3 * int r\<rparr>"

definition two_states :: "nat \<Rightarrow> dist_env" where
  "two_states r = fresh (launcher_env Map.empty (int r) (int r) 2)"

definition partial_signals :: environ where
  "partial_signals = [''RANK'' \<mapsto> ''2'', ''WORLD_SIZE'' \<mapsto> ''4'']"



definition demo_prompts :: prompts where
  "demo_prompts = [(''first task'', [''nn'' \<mapsto> ''AlexNet'']), (''second task'', Map.empty)]"

definition demo_gen :: gen_ext where
  "demo_gen =
     \<lparr>load_tokenizer = None,
      load_model = Inr \<lparr>num_attention_heads = Some 12, hidden_size = Some 768\<rparr>,
      init_inference = (\<lambda>mp. None),
      build_prompts = Inr demo_prompts,
      broadcast_prompts = (\<lambda>p. Inr (Some demo_prompts)),
      tokenize = (\<lambda>s. Inr [1, 2, 3]),
      generate = (\<lambda>idx enc. Inr (enc @ [idx])),
      decode = (\<lambda>ts. ''text''),
      extract_code = (\<lambda>s. Some ''code''),
      extract_hyperparam = (\<lambda>s. Some ''{}''),
      json_loads = (\<lambda>s. Inr (VDict [])),
      fs_fails = (\<lambda>op. False),
      models_dir = [''out'', ''synth''],
      new_out_file = ''full_output.txt'',
      new_nn_file = ''new_nn.py'',
      hp_file = ''hp.json''\<rparr>"

definition raw_write_fails_gen :: gen_ext where
  "raw_write_fails_gen =
     demo_gen\<lparr>fs_fails := (\<lambda>op. case op of CreateFile d n c \<Rightarrow> n = ''full_output.txt'' | _ \<Rightarrow> False)\<rparr>"



definition eight_rank_state :: dist_env where
  "eight_rank_state = fresh (launcher_env Map.empty 0 0 8)"

section \<open>Reading back a rendered integer\<close>

lemma is_digit_digit_char: "d < 10 \<Longrightarrow> is_digit (digit_char d)"
  by (simp add: is_digit_def digit_char_def)

lemma digit_val_digit_char: "d < 10 \<Longrightarrow> digit_val (digit_char d) = d"
  by (simp add: digit_val_def digit_char_def)

lemma not_space_digit: "is_digit c \<Longrightarrow> \<not> is_space c"
  by (auto simp: is_digit_def is_space_def Let_def)

lemma digit_not_sign: "is_digit c \<Longrightarrow> c \<noteq> CHR ''-'' \<and> c \<noteq> CHR ''+'' \<and> c \<noteq> CHR ''_''"
  by (auto simp: is_digit_def)

lemma dec_digits_all_digits: "\<forall>c \<in> set (dec_digits n). is_digit c"
proof (induction n rule: dec_digits.induct)
  case (1 n)
  show ?case
  proof (cases "n < 10")
    case True
    then show ?thesis
      by (simp add: dec_digits.simps [of n] is_digit_digit_char)
  next
    case False
    with 1 show ?thesis
      by (simp add: dec_digits.simps [of n] is_digit_digit_char)
  qed
qed

lemma dec_digits_nonempty: "dec_digits n \<noteq> []"
  by (subst dec_digits.simps) simp

lemma read_digits_append:
  "\<forall>c \<in> set xs. is_digit c \<Longrightarrow>
   read_digits acc (xs @ ys) = read_digits (foldl (\<lambda>a c. a * 10 + digit_val c) acc xs) ys"
  by (induction xs arbitrary: acc) simp_all

lemma foldl_dec_digits:
  "foldl (\<lambda>a c. a * 10 + digit_val c) acc (dec_digits n) = acc * 10 ^ length (dec_digits n) + n"
proof (induction n arbitrary: acc rule: dec_digits.induct)
  case (1 n)
  show ?case
  proof (cases "n < 10")
    case True
    then show ?thesis
      by (simp add: dec_digits.simps [of n] digit_val_digit_char)
  next
    case False
    then have "foldl (\<lambda>a c. a * 10 + digit_val c) acc (dec_digits n)
        = (acc * 10 ^ length (dec_digits (n div 10)) + n div 10) * 10 + n mod 10"
      using 1 [of acc] by (simp add: dec_digits.simps [of n] digit_val_digit_char)
    also have "\<dots> = acc * 10 ^ length (dec_digits n) + n"
      using False by (simp add: dec_digits.simps [of n] algebra_simps)
    finally show ?thesis .
  qed
qed

lemma read_digits_all_digits:
  "\<forall>c \<in> set xs. is_digit c \<Longrightarrow>
   read_digits acc xs = Some (foldl (\<lambda>a c. a * 10 + digit_val c) acc xs)"
  using read_digits_append [of xs acc "[]"] by simp

lemma read_nat_dec_digits: "read_nat (dec_digits n) = Some n"
proof -
  obtain c cs where cs: "dec_digits n = c # cs"
    using dec_digits_nonempty [of n] by (cases "dec_digits n") auto
  have all: "\<forall>c \<in> set (dec_digits n). is_digit c"
    by (rule dec_digits_all_digits)
  then have c: "is_digit c" and rest: "\<forall>c \<in> set cs. is_digit c"
    by (simp_all add: cs)
  have "read_nat (dec_digits n) = read_digits (digit_val c) cs"
    using c by (simp add: read_nat_def cs)
  also have "\<dots> = Some (foldl (\<lambda>a c. a * 10 + digit_val c) (digit_val c) cs)"
    by (rule read_digits_all_digits [OF rest])
  also have "foldl (\<lambda>a c. a * 10 + digit_val c) (digit_val c) cs
      = foldl (\<lambda>a c. a * 10 + digit_val c) 0 (dec_digits n)"
    by (simp add: cs)
  also have "\<dots> = n"
    by (simp add: foldl_dec_digits)
  finally show ?thesis .
qed

lemma py_strip_digits:
  assumes "xs \<noteq> []" and "\<forall>c \<in> set xs. is_digit c"
  shows "py_strip xs = xs"
proof -
  have h: "\<not> is_space (hd xs)"
    using assms by (simp add: not_space_digit)
  have l: "\<not> is_space (last xs)"
    using assms by (simp add: not_space_digit)
  have "dropWhile is_space xs = xs"
    using assms(1) h by (cases xs) simp_all
  moreover have "dropWhile is_space (rev xs) = rev xs"
    using assms(1) l by (cases "rev xs") (simp_all add: last_rev [symmetric] hd_rev)
  ultimately show ?thesis
    by (simp add: py_strip_def)
qed

lemma py_strip_minus_digits:
  assumes "xs \<noteq> []" and "\<forall>c \<in> set xs. is_digit c"
  shows "py_strip (CHR ''-'' # xs) = CHR ''-'' # xs"
proof -
  have l: "\<not> is_space (last xs)"
    using assms by (simp add: not_space_digit)
  have m: "\<not> is_space CHR ''-''"
    by (simp add: is_space_def)
  have "dropWhile is_space (rev (CHR ''-'' # xs)) = rev (CHR ''-'' # xs)"
    using assms(1) l by (cases "rev xs") (simp_all add: hd_rev)
  then show ?thesis
    using m by (simp add: py_strip_def)
qed

lemma py_int_py_str: "py_int (py_str i) = Inr i"
proof (cases "i < 0")
  case True
  let ?ds = "dec_digits (nat (- i))"
  have "py_strip (CHR ''-'' # ?ds) = CHR ''-'' # ?ds"
    by (rule py_strip_minus_digits [OF dec_digits_nonempty dec_digits_all_digits])
  then show ?thesis
    using True by (simp add: py_int_def py_str_def read_nat_dec_digits)
next
  case False
  let ?ds = "dec_digits (nat i)"
  obtain c cs where cs: "?ds = c # cs"
    using dec_digits_nonempty [of "nat i"] by (cases ?ds) auto
  have "is_digit c"
    using dec_digits_all_digits [of "nat i"] by (simp add: cs)
  then have sign: "c \<noteq> CHR ''-''" "c \<noteq> CHR ''+''"
    using digit_not_sign by blast+
  have strip: "py_strip ?ds = ?ds"
    by (rule py_strip_digits [OF dec_digits_nonempty dec_digits_all_digits])
  have "read_nat (c # cs) = Some (nat i)"
    using read_nat_dec_digits [of "nat i"] by (simp add: cs)
  then show ?thesis
    using False sign strip by (simp add: py_int_def py_str_def cs)
qed

section \<open>Properties of the distributed bootstrap\<close>

subsection \<open>Identity resolution\<close>

lemma signal_carries_py_int:
  "signal_carries env k d v \<Longrightarrow> py_int (env_get env k (py_str d)) = Inr v"
  by (auto simp: signal_carries_def env_get_def py_int_py_str split: option.splits)

lemma py_str_0: "py_str 0 = ''0''"
  by code_simp

lemma py_str_1: "py_str 1 = ''1''"
  by code_simp

lemma py_int_0: "py_int ''0'' = Inr 0"
  using py_int_py_str [of 0] by (simp add: py_str_0)

lemma py_int_1: "py_int ''1'' = Inr 1"
  using py_int_py_str [of 1] by (simp add: py_str_1)

lemma read_identity_consistent:
  assumes "consistent_signals (environ s) r l n"
  shows "read_identity s = (s\<lparr>d_rank := r, d_local_rank := l, d_world_size := n\<rparr>, None)"
proof -
  have "py_int (env_get (environ s) ''RANK'' ''0'') = Inr r"
    using assms signal_carries_py_int [of "environ s" "''RANK''" 0 r]
    by (simp add: consistent_signals_def py_str_0)
  moreover have "py_int (env_get (environ s) ''LOCAL_RANK'' ''0'') = Inr l"
    using assms signal_carries_py_int [of "environ s" "''LOCAL_RANK''" 0 l]
    by (simp add: consistent_signals_def py_str_0)
  moreover have "py_int (env_get (environ s) ''WORLD_SIZE'' ''1'') = Inr n"
    using assms signal_carries_py_int [of "environ s" "''WORLD_SIZE''" 1 n]
    by (simp add: consistent_signals_def py_str_1)
  ultimately show ?thesis
    by (simp add: read_identity_def)
qed

lemma read_identity_error_source:
  assumes "snd (read_identity s) = Some e"
  shows "\<exists>k \<in> {''RANK'', ''LOCAL_RANK'', ''WORLD_SIZE''}. \<exists>v. environ s k = Some v \<and> py_int v = Inl e"
  using assms
  by (auto simp: read_identity_def env_get_def py_int_0 py_int_1 Let_def
      split: sum.splits option.splits)

lemma read_identity_missing:
  assumes "read_identity s = (s', None)"
  shows "(environ s ''RANK'' = None \<longrightarrow> d_rank s' = 0) \<and>
         (environ s ''LOCAL_RANK'' = None \<longrightarrow> d_local_rank s' = 0) \<and>
         (environ s ''WORLD_SIZE'' = None \<longrightarrow> d_world_size s' = 1)"
  using assms
  by (auto simp: read_identity_def env_get_def py_int_0 py_int_1 Let_def
      split: sum.splits option.splits)

lemma consistent_launcher_env:
  "0 \<le> r \<Longrightarrow> r < n \<Longrightarrow> 0 \<le> l \<Longrightarrow> consistent_signals (launcher_env env r l n) r l n"
  by (simp add: consistent_signals_def signal_carries_def launcher_env_def)

text \<open>
  Claim C6. Reading the identity raises only for a signal that is present and
  malformed, never for a missing one; when it returns, a missing rank or local rank
  reads as 0 and a missing world size as 1. Under consistent signals it returns the
  identity the signals carry, with \<open>0 \<le> rank < world_size\<close>.
\<close>

theorem read_identity_defaults_and_range:
  "(\<forall>e. snd (read_identity s) = Some e \<longrightarrow>
      (\<exists>k \<in> {''RANK'', ''LOCAL_RANK'', ''WORLD_SIZE''}. \<exists>v. environ s k = Some v \<and> py_int v = Inl e)) \<and>
   (read_identity s = (s', None) \<longrightarrow>
      (environ s ''RANK'' = None \<longrightarrow> d_rank s' = 0) \<and>
      (environ s ''LOCAL_RANK'' = None \<longrightarrow> d_local_rank s' = 0) \<and>
      (environ s ''WORLD_SIZE'' = None \<longrightarrow> d_world_size s' = 1)) \<and>
   (consistent_signals (environ s) r l n \<longrightarrow>
      read_identity s = (s\<lparr>d_rank := r, d_local_rank := l, d_world_size := n\<rparr>, None) \<and>
      0 \<le> d_rank (fst (read_identity s)) \<and>
      d_rank (fst (read_identity s)) < d_world_size (fst (read_identity s)))"
proof (intro conjI allI impI)
  fix e
  assume "snd (read_identity s) = Some e"
  then show "\<exists>k \<in> {''RANK'', ''LOCAL_RANK'', ''WORLD_SIZE''}. \<exists>v. environ s k = Some v \<and> py_int v = Inl e"
    by (rule read_identity_error_source)
next
  assume c: "consistent_signals (environ s) r l n"
  show eq: "read_identity s = (s\<lparr>d_rank := r, d_local_rank := l, d_world_size := n\<rparr>, None)"
    by (rule read_identity_consistent [OF c])
  show "0 \<le> d_rank (fst (read_identity s))"
    using c by (simp add: eq consistent_signals_def)
  show "d_rank (fst (read_identity s)) < d_world_size (fst (read_identity s))"
    using c by (simp add: eq consistent_signals_def)
qed (use read_identity_missing in blast)+

theorem read_identity_defaults_and_range_witness:
  "consistent_signals (environ (fresh partial_signals)) 2 0 4 \<and>
   environ (fresh partial_signals) ''LOCAL_RANK'' = None \<and>
   read_identity (fresh partial_signals)
     = ((fresh partial_signals)\<lparr>d_rank := 2, d_local_rank := 0, d_world_size := 4\<rparr>, None) \<and>
   0 \<le> d_rank (fst (read_identity (fresh partial_signals))) \<and>
   d_rank (fst (read_identity (fresh partial_signals))) < d_world_size (fst (read_identity (fresh partial_signals)))"
proof -
  have s2: "py_str 2 = ''2''" and s4: "py_str 4 = ''4''"
    by code_simp+
  have c: "consistent_signals (environ (fresh partial_signals)) 2 0 4"
    by (simp add: consistent_signals_def signal_carries_def fresh_def partial_signals_def s2 s4)
  moreover have "environ (fresh partial_signals) ''LOCAL_RANK'' = None"
    by (simp add: fresh_def partial_signals_def)
  ultimately show ?thesis
    using read_identity_defaults_and_range [of "fresh partial_signals" _ 2 0 4] by blast
qed

subsection \<open>Local spawn\<close>

lemma spawn_entry_env:
  "inv_environ (spawn_entry env i n) =
     (setdefault (setdefault env ''MASTER_ADDR'' ''127.0.0.1'') ''MASTER_PORT'' ''29500'')
       (''LOCAL_RANK'' \<mapsto> py_str i, ''RANK'' \<mapsto> py_str i, ''WORLD_SIZE'' \<mapsto> py_str n)"
  by (simp add: spawn_entry_def Let_def)

lemma spawn_entry_signals:
  "inv_environ (spawn_entry env i n) ''RANK'' = Some (py_str i) \<and>
   inv_environ (spawn_entry env i n) ''LOCAL_RANK'' = Some (py_str i) \<and>
   inv_environ (spawn_entry env i n) ''WORLD_SIZE'' = Some (py_str n) \<and>
   inv_local_rank (spawn_entry env i n) = i"
  by (simp add: spawn_entry_def Let_def)

lemma spawn_entry_master:
  "inv_environ (spawn_entry env i n) ''MASTER_ADDR'' = Some (env_get env ''MASTER_ADDR'' ''127.0.0.1'') \<and>
   inv_environ (spawn_entry env i n) ''MASTER_PORT'' = Some (env_get env ''MASTER_PORT'' ''29500'')"
  by (simp add: spawn_entry_def Let_def setdefault_def env_get_def split: option.splits)

lemma spawn_entry_other:
  "k \<notin> {''MASTER_ADDR'', ''MASTER_PORT'', ''LOCAL_RANK'', ''RANK'', ''WORLD_SIZE''} \<Longrightarrow>
   inv_environ (spawn_entry env i n) k = env k"
  by (simp add: spawn_entry_def Let_def setdefault_def split: option.splits)

lemma spawn_entry_identity:
  "read_identity (fresh (inv_environ (spawn_entry env i n)))
     = ((fresh (inv_environ (spawn_entry env i n)))\<lparr>d_rank := i, d_local_rank := i, d_world_size := n\<rparr>, None)"
  by (simp add: read_identity_def env_get_def spawn_entry_signals py_int_py_str fresh_def)

text \<open>
  Claim C7. With none of the three launch signals set, \<open>spawn_if_needed\<close> spawns: as
  many workers as there are accelerator devices, and at least one, when \<open>nprocs\<close> is
  not given, and \<open>nprocs\<close> workers otherwise. The \<open>i\<close>-th worker calls the entry point
  with \<open>i\<close>, in an environment where rank and local rank are \<open>i\<close>, the world size is
  the number of workers, the master address and port keep a value already set and
  are \<open>127.0.0.1\<close> and \<open>29500\<close> otherwise, and every other variable is the parent's.
\<close>

theorem spawn_if_needed_local:
  assumes "env ''RANK'' = None" and "env ''WORLD_SIZE'' = None" and "env ''LOCAL_RANK'' = None"
  shows "\<exists>cs. spawn_if_needed X env nprocs = Inr (Spawned cs) \<and>
           length cs = (case nprocs of None \<Rightarrow> max 1 (cuda_device_count X) | Some n \<Rightarrow> nat n) \<and>
           (\<forall>i < length cs.
              inv_local_rank (cs ! i) = int i \<and>
              inv_environ (cs ! i) ''RANK'' = Some (py_str (int i)) \<and>
              inv_environ (cs ! i) ''LOCAL_RANK'' = Some (py_str (int i)) \<and>
              inv_environ (cs ! i) ''WORLD_SIZE'' = Some (py_str (int (length cs))) \<and>
              inv_environ (cs ! i) ''MASTER_ADDR'' = Some (env_get env ''MASTER_ADDR'' ''127.0.0.1'') \<and>
              inv_environ (cs ! i) ''MASTER_PORT'' = Some (env_get env ''MASTER_PORT'' ''29500'') \<and>
              (\<forall>k. k \<notin> {''MASTER_ADDR'', ''MASTER_PORT'', ''LOCAL_RANK'', ''RANK'', ''WORLD_SIZE''}
                 \<longrightarrow> inv_environ (cs ! i) k = env k) \<and>
              read_identity (fresh (inv_environ (cs ! i)))
                = ((fresh (inv_environ (cs ! i)))
                     \<lparr>d_rank := int i, d_local_rank := int i, d_world_size := int (length cs)\<rparr>, None))"
proof -
  define n where "n = (case nprocs of
                    None \<Rightarrow> if cuda_device_count X = 0 then 1 else int (cuda_device_count X)
                  | Some n \<Rightarrow> n)"
  define cs where "cs = mp_spawn (\<lambda>i. spawn_entry env i n) n"
  have run: "spawn_if_needed X env nprocs = Inr (Spawned cs)"
    using assms by (simp add: spawn_if_needed_def cs_def n_def Let_def)
  have len: "length cs = nat n"
    by (simp add: cs_def mp_spawn_def)
  have count: "nat n = (case nprocs of None \<Rightarrow> max 1 (cuda_device_count X) | Some n \<Rightarrow> nat n)"
    by (simp add: n_def split: option.splits)
  have nth: "cs ! i = spawn_entry env (int i) n" if "i < length cs" for i
    using that by (simp add: cs_def mp_spawn_def)
  have n_eq: "n = int (length cs)" if "i < length cs" for i
    using that len by simp
  have "inv_local_rank (cs ! i) = int i \<and>
        inv_environ (cs ! i) ''RANK'' = Some (py_str (int i)) \<and>
        inv_environ (cs ! i) ''LOCAL_RANK'' = Some (py_str (int i)) \<and>
        inv_environ (cs ! i) ''WORLD_SIZE'' = Some (py_str (int (length cs))) \<and>
        inv_environ (cs ! i) ''MASTER_ADDR'' = Some (env_get env ''MASTER_ADDR'' ''127.0.0.1'') \<and>
        inv_environ (cs ! i) ''MASTER_PORT'' = Some (env_get env ''MASTER_PORT'' ''29500'') \<and>
        (\<forall>k. k \<notin> {''MASTER_ADDR'', ''MASTER_PORT'', ''LOCAL_RANK'', ''RANK'', ''WORLD_SIZE''}
           \<longrightarrow> inv_environ (cs ! i) k = env k) \<and>
        read_identity (fresh (inv_environ (cs ! i)))
          = ((fresh (inv_environ (cs ! i)))
               \<lparr>d_rank := int i, d_local_rank := int i, d_world_size := int (length cs)\<rparr>, None)"
    if i: "i < length cs" for i
    using spawn_entry_signals [of env "int i" n] spawn_entry_master [of env "int i" n]
      spawn_entry_other [of _ env "int i" n] spawn_entry_identity [of env "int i" n]
    unfolding nth [OF i] n_eq [OF i, symmetric] by blast
  with run len count show ?thesis
    by simp
qed

theorem spawn_if_needed_local_witness:
  "[''MASTER_PORT'' \<mapsto> ''4000''] ''RANK'' = None \<and>
   [''MASTER_PORT'' \<mapsto> ''4000''] ''WORLD_SIZE'' = None \<and>
   [''MASTER_PORT'' \<mapsto> ''4000''] ''LOCAL_RANK'' = None \<and>
   (\<exists>cs. spawn_if_needed (quiet_ext\<lparr>cuda_device_count := 2\<rparr>) [''MASTER_PORT'' \<mapsto> ''4000''] None
            = Inr (Spawned cs) \<and>
         length cs = 2 \<and>
         inv_local_rank (cs ! 1) = 1 \<and>
         inv_environ (cs ! 1) ''RANK'' = Some ''1'' \<and>
         inv_environ (cs ! 1) ''LOCAL_RANK'' = Some ''1'' \<and>
         inv_environ (cs ! 1) ''WORLD_SIZE'' = Some ''2'' \<and>
         inv_environ (cs ! 1) ''MASTER_ADDR'' = Some ''127.0.0.1'' \<and>
         inv_environ (cs ! 1) ''MASTER_PORT'' = Some ''4000'')"
proof -
  let ?env = "[''MASTER_PORT'' \<mapsto> ''4000'']"
  let ?X = "quiet_ext\<lparr>cuda_device_count := 2\<rparr>"
  have h: "?env ''RANK'' = None" "?env ''WORLD_SIZE'' = None" "?env ''LOCAL_RANK'' = None"
    by simp_all
  have s2: "py_str 2 = ''2''"
    by code_simp
  from spawn_if_needed_local [OF h, of ?X None]
  obtain cs where run: "spawn_if_needed ?X ?env None = Inr (Spawned cs)"
    and len: "length cs = (case None :: int option of None \<Rightarrow> max 1 (cuda_device_count ?X) | Some n \<Rightarrow> nat n)"
    and each: "\<forall>i < length cs.
              inv_local_rank (cs ! i) = int i \<and>
              inv_environ (cs ! i) ''RANK'' = Some (py_str (int i)) \<and>
              inv_environ (cs ! i) ''LOCAL_RANK'' = Some (py_str (int i)) \<and>
              inv_environ (cs ! i) ''WORLD_SIZE'' = Some (py_str (int (length cs))) \<and>
              inv_environ (cs ! i) ''MASTER_ADDR'' = Some (env_get ?env ''MASTER_ADDR'' ''127.0.0.1'') \<and>
              inv_environ (cs ! i) ''MASTER_PORT'' = Some (env_get ?env ''MASTER_PORT'' ''29500'') \<and>
              (\<forall>k. k \<notin> {''MASTER_ADDR'', ''MASTER_PORT'', ''LOCAL_RANK'', ''RANK'', ''WORLD_SIZE''}
                 \<longrightarrow> inv_environ (cs ! i) k = ?env k) \<and>
              read_identity (fresh (inv_environ (cs ! i)))
                = ((fresh (inv_environ (cs ! i)))
                     \<lparr>d_rank := int i, d_local_rank := int i, d_world_size := int (length cs)\<rparr>, None)"
    by blast
  have len2: "length cs = 2"
    using len by (simp add: quiet_ext_def)
  then have "1 < length cs"
    by simp
  with each have
    "inv_local_rank (cs ! 1) = 1 \<and>
     inv_environ (cs ! 1) ''RANK'' = Some ''1'' \<and>
     inv_environ (cs ! 1) ''LOCAL_RANK'' = Some ''1'' \<and>
     inv_environ (cs ! 1) ''WORLD_SIZE'' = Some ''2'' \<and>
     inv_environ (cs ! 1) ''MASTER_ADDR'' = Some ''127.0.0.1'' \<and>
     inv_environ (cs ! 1) ''MASTER_PORT'' = Some ''4000''"
    using len2 by (simp add: py_str_1 s2 env_get_def)
  with run len2 h show ?thesis
    by blast
qed

subsection \<open>Initialisation is idempotent\<close>

lemma init_quiet_42:
  "init quiet_ext (Some 42) (fresh Map.empty)
     = ((fresh [''MASTER_ADDR'' \<mapsto> ''127.0.0.1'', ''MASTER_PORT'' \<mapsto> ''29500''])
          \<lparr>d_inited := True, torch_seed := Some 42\<rparr>, None)"
  by (simp add: init_def read_identity_def env_get_def fresh_def quiet_ext_def py_int_0 py_int_1
      form_group_def resolve_seed_def set_seed_def rank_def setdefault_def)

text \<open>
  Claim C1. A call of \<open>init\<close> in a state that is already initialised returns at once
  and leaves every field as it was; a call that returns leaves the state initialised.
  So after a first call that returned, a second call, whatever its arguments and
  whatever the libraries would answer, returns the very same state.
\<close>

theorem init_idempotent:
  "(d_inited s \<longrightarrow> init X seed s = (s, None)) \<and>
   (init X seed s = (s', None) \<longrightarrow> d_inited s' \<and> init X' seed' s' = (s', None))"
proof (intro conjI impI)
  assume "d_inited s"
  then show "init X seed s = (s, None)"
    by (simp add: init_def)
next
  assume returned: "init X seed s = (s', None)"
  show "d_inited s'"
  proof (cases "d_inited s")
    case True
    with returned show ?thesis
      by (simp add: init_def)
  next
    case False
    with returned show ?thesis
      by (auto simp: init_def Let_def split: prod.splits option.splits sum.splits)
  qed
  then show "init X' seed' s' = (s', None)"
    by (simp add: init_def)
qed

theorem init_idempotent_witness:
  "snd (init quiet_ext (Some 42) (fresh Map.empty)) = None \<and>
   init failing_barrier_ext None (fst (init quiet_ext (Some 42) (fresh Map.empty)))
     = (fst (init quiet_ext (Some 42) (fresh Map.empty)), None) \<and>
   torch_seed (fst (init failing_barrier_ext None (fst (init quiet_ext (Some 42) (fresh Map.empty))))) = Some 42"
  using init_idempotent [of "fresh Map.empty" quiet_ext "Some 42"
      "fst (init quiet_ext (Some 42) (fresh Map.empty))" failing_barrier_ext None]
  by (simp add: init_quiet_42)

subsection \<open>Seeds\<close>

text \<open>
  Claim C8 as stated fails: with world size 1 and the seed 42, rank 0 seeds with 42,
  not 43.
\<close>

theorem supplied_seed_42_counterexample:
  "torch_seed (fst (init quiet_ext (Some 42) (fresh Map.empty))) = Some 42 \<and>
   torch_seed (fst (init quiet_ext (Some 42) (fresh Map.empty))) \<noteq> Some 43 \<and>
   d_rank (fst (init quiet_ext (Some 42) (fresh Map.empty))) = 0 \<and>
   d_world_size (fst (init quiet_ext (Some 42) (fresh Map.empty))) = 1"
  unfolding init_quiet_42 by (simp add: fresh_def)

text \<open>
  Claim C8, amended. In a single-process run (rank 0, world size 1) with a seed
  supplied by the caller, \<open>init\<close> returns and the seed applied is the supplied one:
  seed plus rank, 42 for the seed 42.
\<close>

theorem init_supplied_seed_single:
  assumes "\<not> d_inited s" and "consistent_signals (environ s) 0 l 1"
  shows "\<exists>s'. init X (Some v) s = (s', None) \<and> d_rank s' = 0 \<and> d_world_size s' = 1 \<and>
               torch_seed s' = Some v"
proof -
  have "form_group X s' = (s', None)" if "d_world_size s' = 1" for s'
    using that by (simp add: form_group_def)
  then show ?thesis
    using assms(1) read_identity_consistent [OF assms(2)]
    by (simp add: init_def Let_def resolve_seed_def set_seed_def rank_def)
qed

theorem init_supplied_seed_single_witness:
  "\<not> d_inited (fresh Map.empty) \<and> consistent_signals (environ (fresh Map.empty)) 0 0 1 \<and>
   (\<exists>s'. init quiet_ext (Some 42) (fresh Map.empty) = (s', None) \<and> d_rank s' = 0 \<and>
         d_world_size s' = 1 \<and> torch_seed s' = Some 42)"
proof -
  have a: "\<not> d_inited (fresh Map.empty)"
    by (simp add: fresh_def)
  have b: "consistent_signals (environ (fresh Map.empty)) 0 0 1"
    by (simp add: fresh_def consistent_signals_def signal_carries_def)
  from init_supplied_seed_single [OF a b, of quiet_ext 42] a b show ?thesis
    by blast
qed

lemma form_group_ok:
  assumes "group_formation_ok X" and "1 < d_world_size s"
  shows "form_group X s = (s\<lparr>pg_initialized := True\<rparr>, None)"
proof (cases "pg_initialized s")
  case True
  then show ?thesis
    by (simp add: form_group_def)
next
  case False
  with assms show ?thesis
    by (auto simp: form_group_def group_formation_ok_def split: option.splits)
qed

lemma init_supplied_seed_identity:
  assumes "\<not> d_inited s" and "consistent_signals (environ s) r l n" and "group_formation_ok X"
  shows "\<exists>s'. init X (Some v) s = (s', None) \<and> d_rank s' = r \<and> d_world_size s' = n"
proof (cases "1 < n")
  case True
  then show ?thesis
    using assms
    by (cases "cuda_is_available X")
      (simp_all add: init_def Let_def read_identity_consistent [OF assms(2)] form_group_ok
        resolve_seed_def set_seed_def)
next
  case False
  then show ?thesis
    using assms
    by (cases "cuda_is_available X")
      (simp_all add: init_def Let_def read_identity_consistent [OF assms(2)] form_group_def
        resolve_seed_def set_seed_def)
qed

lemma rank_ext_broadcast:
  "broadcast_outcome (rank_ext X r) (seed_base (rank_ext X r)) = Inr (seed_base (X 0))"
  by (simp add: rank_ext_def collective_broadcast_def seed_base_def)

lemma rank_ext_fields:
  "init_pg_outcome (rank_ext X r) = init_pg_outcome (X r)"
  "init_pg_accepts_device_id (rank_ext X r) = init_pg_accepts_device_id (X r)"
  "cuda_is_available (rank_ext X r) = cuda_is_available (X r)"
  by (simp_all add: rank_ext_def)

lemma group_formation_ok_rank_ext:
  "group_formation_ok (rank_ext X r) = group_formation_ok (X r)"
  by (simp add: group_formation_ok_def rank_ext_fields split: option.splits)

lemma resolve_seed_broadcast:
  "pg_initialized s \<Longrightarrow> resolve_seed X None s = broadcast_outcome X (seed_base X)"
  by (simp add: resolve_seed_def)

lemma init_seed_by_broadcast:
  assumes "\<not> d_inited s" and "consistent_signals (environ s) r l n" and "1 < n"
    and "group_formation_ok X" and "broadcast_outcome X (seed_base X) = Inr b"
  shows "\<exists>s'. init X None s = (s', None) \<and> torch_seed s' = Some (b + r)"
proof (cases "cuda_is_available X")
  case True
  then show ?thesis
    using assms
    by (simp add: init_def Let_def read_identity_consistent [OF assms(2)] form_group_ok
        resolve_seed_broadcast set_seed_def rank_def)
next
  case False
  then show ?thesis
    using assms
    by (simp add: init_def Let_def read_identity_consistent [OF assms(2)] form_group_ok
        resolve_seed_broadcast set_seed_def rank_def)
qed

text \<open>
  Claim C2. In a job of \<open>N > 1\<close> ranks started with consistent signals and no seed,
  where group formation succeeds on every rank, every rank's \<open>init\<close> returns and rank
  \<open>r\<close> seeds with \<open>base + r\<close>, where \<open>base\<close> is the value rank 0 drew from its clock;
  the seeds are pairwise different.
\<close>

theorem seeds_across_ranks:
  assumes "1 < N"
    and "\<forall>r < N. \<not> d_inited (S r) \<and> group_formation_ok (X r) \<and>
           (\<exists>l. consistent_signals (environ (S r)) (int r) l (int N))"
  shows "map snd (run_ranks N X S) = replicate N None \<and>
         map (\<lambda>p. torch_seed (fst p)) (run_ranks N X S) = map (\<lambda>r. Some (seed_base (X 0) + int r)) [0..<N] \<and>
         distinct (map (\<lambda>p. torch_seed (fst p)) (run_ranks N X S))"
proof -
  have each: "snd (init (rank_ext X r) None (S r)) = None \<and>
              torch_seed (fst (init (rank_ext X r) None (S r))) = Some (seed_base (X 0) + int r)"
    if "r < N" for r
  proof -
    from assms(2) that obtain l where
      a: "\<not> d_inited (S r)" "group_formation_ok (X r)"
         "consistent_signals (environ (S r)) (int r) l (int N)"
      by blast
    have "1 < int N"
      using assms(1) by simp
    moreover have "group_formation_ok (rank_ext X r)"
      using a(2) by (simp add: group_formation_ok_rank_ext)
    ultimately show ?thesis
      using init_seed_by_broadcast [OF a(1) a(3) _ _ rank_ext_broadcast] by fastforce
  qed
  have errs: "map snd (run_ranks N X S) = replicate N None"
    using each by (auto simp: run_ranks_def intro!: nth_equalityI)
  have seeds: "map (\<lambda>p. torch_seed (fst p)) (run_ranks N X S)
      = map (\<lambda>r. Some (seed_base (X 0) + int r)) [0..<N]"
    using each by (simp add: run_ranks_def)
  have "inj_on (\<lambda>r. Some (seed_base (X 0) + int r)) (set [0..<N])"
    by (simp add: inj_on_def)
  then have "distinct (map (\<lambda>r. Some (seed_base (X 0) + int r)) [0..<N])"
    by (simp add: distinct_map)
  with errs seeds show ?thesis
    by simp
qed

lemma seed_base_two_clocks: "seed_base (two_clocks 0) = 1700000000"
  by (simp add: seed_base_def two_clocks_def quiet_ext_def)

theorem seeds_across_ranks_witness:
  "(1::nat) < 2 \<and>
   map snd (run_ranks 2 two_clocks two_states) = [None, None] \<and>
   map (\<lambda>p. torch_seed (fst p)) (run_ranks 2 two_clocks two_states) = [Some 1700000000, Some 1700000001]"
proof -
  have h: "\<forall>r < 2. \<not> d_inited (two_states r) \<and> group_formation_ok (two_clocks r) \<and>
           (\<exists>l. consistent_signals (environ (two_states r)) (int r) l (int 2))"
  proof (intro allI impI conjI)
    fix r :: nat
    assume r: "r < 2"
    show "\<not> d_inited (two_states r)"
      by (simp add: two_states_def fresh_def)
    show "group_formation_ok (two_clocks r)"
      by (simp add: group_formation_ok_def two_clocks_def quiet_ext_def)
    have "consistent_signals (launcher_env Map.empty (int r) (int r) 2) (int r) (int r) 2"
      using r by (intro consistent_launcher_env) simp_all
    then show "\<exists>l. consistent_signals (environ (two_states r)) (int r) l (int 2)"
      by (auto simp: two_states_def fresh_def)
  qed
  have u: "[0..<2] = [0, Suc 0]"
    by (simp add: upt_rec)
  from seeds_across_ranks [OF _ h] show ?thesis
    by (simp add: seed_base_two_clocks u numeral_2_eq_2)
qed

subsection \<open>Teardown\<close>



section \<open>Properties of the training-engine adapter\<close>








section \<open>Properties of the rank-coordinated generator\<close>

subsection \<open>Compatibility check\<close>

lemma tp_check_None: "tp_check v mp = None \<longleftrightarrow> (\<forall>n. v = Some n \<longrightarrow> mp dvd n)"
  by (auto simp: tp_check_def py_mod_def mod_eq_0_iff_dvd split: option.splits)

lemma tp_compat_None:
  "tp_compat_or_raise cfg mp = None \<longleftrightarrow>
     (\<forall>n. num_attention_heads cfg = Some n \<longrightarrow> mp dvd n) \<and>
     (\<forall>h. hidden_size cfg = Some h \<longrightarrow> mp dvd h)"
  by (cases "tp_check (num_attention_heads cfg) mp")
    (auto simp: tp_compat_or_raise_def tp_check_None [symmetric] simp del: not_None_eq)

text \<open>
  Claim C10. The check raises exactly when \<open>num_attention_heads\<close> is present and not
  divisible by the world size, or \<open>hidden_size\<close> is; once \<open>init\<close> and the two loads
  returned, a failed check ends the worker with that error and no event, and a passed
  check is followed by the construction of the inference engine.
\<close>

theorem tp_compat_raises_iff:
  "((\<exists>e. tp_compat_or_raise cfg mp = Some e) \<longleftrightarrow>
      (\<exists>n. num_attention_heads cfg = Some n \<and> \<not> mp dvd n) \<or>
      (\<exists>h. hidden_size cfg = Some h \<and> \<not> mp dvd h)) \<and>
   (init X seed s0 = (s, None) \<and> load_tokenizer G = None \<and> load_model G = Inr cfg \<longrightarrow>
      (case tp_compat_or_raise cfg (world_size s) of
         Some e \<Rightarrow> worker X G seed sv s0 = (s, [], Some e)
       | None \<Rightarrow> \<exists>evs r. worker X G seed sv s0 = (s, EvInitInference (world_size s) # evs, r)))"
proof (intro conjI impI)
  show "(\<exists>e. tp_compat_or_raise cfg mp = Some e) \<longleftrightarrow>
      (\<exists>n. num_attention_heads cfg = Some n \<and> \<not> mp dvd n) \<or>
      (\<exists>h. hidden_size cfg = Some h \<and> \<not> mp dvd h)"
    using tp_compat_None [of cfg mp] by (cases "tp_compat_or_raise cfg mp") auto
next
  assume a: "init X seed s0 = (s, None) \<and> load_tokenizer G = None \<and> load_model G = Inr cfg"
  show "case tp_compat_or_raise cfg (world_size s) of
         Some e \<Rightarrow> worker X G seed sv s0 = (s, [], Some e)
       | None \<Rightarrow> \<exists>evs r. worker X G seed sv s0 = (s, EvInitInference (world_size s) # evs, r)"
    using a
    by (auto simp: worker_def Let_def split: option.splits sum.splits prod.splits)
qed

theorem tp_compat_raises_iff_witness:
  "\<not> (8::int) dvd 12 \<and>
   tp_compat_or_raise \<lparr>num_attention_heads = Some 12, hidden_size = Some 768\<rparr> 8 = Some RuntimeError \<and>
   (\<exists>s. worker quiet_ext demo_gen (Some 1) True eight_rank_state = (s, [], Some RuntimeError))"
proof -
  let ?cfg = "\<lparr>num_attention_heads = Some 12, hidden_size = Some 768\<rparr>"
  have nd: "\<not> (8::int) dvd 12"
    by presburger
  have ev: "tp_compat_or_raise ?cfg 8 = Some RuntimeError"
    by (simp add: tp_compat_or_raise_def tp_check_def py_mod_def)
  have "\<not> d_inited eight_rank_state"
    by (simp add: eight_rank_state_def fresh_def)
  moreover have "consistent_signals (environ eight_rank_state) 0 0 8"
    using consistent_launcher_env [of 0 8 0 Map.empty] by (simp add: eight_rank_state_def fresh_def)
  moreover have "group_formation_ok quiet_ext"
    by (simp add: group_formation_ok_def quiet_ext_def)
  ultimately obtain s where
    s: "init quiet_ext (Some 1) eight_rank_state = (s, None)" and ws: "d_world_size s = 8"
    using init_supplied_seed_identity by blast
  have pre: "init quiet_ext (Some 1) eight_rank_state = (s, None) \<and> load_tokenizer demo_gen = None \<and>
      load_model demo_gen = Inr ?cfg"
    using s by (simp add: demo_gen_def)
  from tp_compat_raises_iff [of ?cfg 8 quiet_ext "Some 1" eight_rank_state s demo_gen True] pre
  have "case tp_compat_or_raise ?cfg (world_size s) of
         Some e \<Rightarrow> worker quiet_ext demo_gen (Some 1) True eight_rank_state = (s, [], Some e)
       | None \<Rightarrow> \<exists>evs r. worker quiet_ext demo_gen (Some 1) True eight_rank_state
           = (s, EvInitInference (world_size s) # evs, r)"
    by blast
  then have "worker quiet_ext demo_gen (Some 1) True eight_rank_state = (s, [], Some RuntimeError)"
    by (simp add: world_size_def ws ev)
  with nd ev show ?thesis
    by blast
qed

subsection \<open>Compute on every rank, output on one\<close>


















subsection \<open>Errors of one task\<close>

lemma gen_task_parse_failure:
  assumes "tokenize G (p @ extra_instructions) = Inr enc" and "generate G idx enc = Inr out"
    and "falsy (extract_code G (decode G (drop (length enc) out))) \<or>
         falsy (extract_hyperparam G (decode G (drop (length enc) out)))"
  shows "gen_task G True sv idx (p, d)
     = ([EvGenerate idx enc, EvDecode idx, EvPrint idx (decode G (drop (length enc) out)),
         EvWarnSkip idx], None)"
  using assms by (simp add: gen_task_def Let_def)

text \<open>
  Claim C5 at a failing input: on the designated rank with \<open>save_llm_output\<close> set, two
  tasks that parse, and a file system on which writing the raw output of a task
  raises. The \<open>OSError\<close> of task 0 escapes the loop and task 1 is never generated.
\<close>

theorem raw_output_write_escapes:
  "gen_loop raw_write_fails_gen True True 0 demo_prompts
     = ([EvGenerate 0 [1, 2, 3], EvDecode 0, EvPrint 0 ''text'',
         EvFs 0 (CreateFile [''out'', ''synth'', ''B0''] ''full_output.txt'' ''text'') False],
        Some OSError) \<and>
   generated (fst (gen_loop raw_write_fails_gen True True 0 demo_prompts)) = [0] \<and>
   length demo_prompts = 2"
proof -
  have "gen_loop raw_write_fails_gen True True 0 demo_prompts
     = ([EvGenerate 0 [1, 2, 3], EvDecode 0, EvPrint 0 ''text'',
         EvFs 0 (CreateFile [''out'', ''synth'', ''B0''] ''full_output.txt'' ''text'') False],
        Some OSError)"
    by (simp add: demo_prompts_def gen_task_def raw_write_fails_gen_def demo_gen_def falsy_def
        persist_def model_dir_of_def py_str_0 Let_def)
  then show ?thesis
    by (simp add: generated_def map_filter_def demo_prompts_def)
qed

end
